theory Spec2Isabelle
  imports Main
begin

section \<open>Route access guard\<close>

text \<open>
  The guard is the callback that \<^verbatim>\<open>middleware.ts\<close> passes to \<^verbatim>\<open>auth\<close>, together with
  the \<^verbatim>\<open>authorized\<close> callback of \<^verbatim>\<open>auth.ts\<close>. Both read two things of a request:
  whether a session is attached to it, and the path name of the requested URL.
\<close>

subsection \<open>Strings, URLs, sessions and responses\<close>

text \<open>
  \<^verbatim>\<open>str.startsWith(search)\<close>: \<^verbatim>\<open>search\<close> is a prefix of \<^verbatim>\<open>str\<close>, compared unit by unit
  and case-sensitively. The empty search string is a prefix of every string.
\<close>

fun startsWith :: "string \<Rightarrow> string \<Rightarrow> bool" where
  "startsWith str [] = True"
| "startsWith [] (c # search) = False"
| "startsWith (x # str) (c # search) = (x = c \<and> startsWith str search)"

text \<open>
  Of a URL the guard reads \<^verbatim>\<open>pathname\<close> only; the origin stands for everything a
  redirect keeps of the request's URL.
\<close>

record URL =
  origin :: string
  pathname :: string

text \<open>
  \<^verbatim>\<open>new URL(url, base)\<close> at its two call sites, where \<^verbatim>\<open>url\<close> is a literal absolute path
  (\<^verbatim>\<open>'/login'\<close>, \<^verbatim>\<open>'/dashboard'\<close>): the result has the base's origin and that path.
\<close>

definition new_URL :: "string \<Rightarrow> URL \<Rightarrow> URL" where
  "new_URL url base = \<lparr>origin = origin base, pathname = url\<rparr>"

record User =
  user_id :: "string option"
  user_email :: "string option"

record Session =
  user :: "User option"

text \<open>The only response either callback builds is \<^verbatim>\<open>Response.redirect(url)\<close>.\<close>

datatype Response = Response_redirect URL

text \<open>
  The request handed to the middleware callback: \<^verbatim>\<open>req.auth\<close> is the session or
  \<^verbatim>\<open>null\<close>, \<^verbatim>\<open>req.nextUrl\<close> the requested URL.
\<close>

record NextAuthRequest =
  req_auth :: "Session option"
  req_nextUrl :: URL

subsection \<open>The middleware callback\<close>

text \<open>
  \<^verbatim>\<open>middleware.ts\<close>, the function passed to \<^verbatim>\<open>auth\<close>. It returns a redirect response
  from one of its two \<^verbatim>\<open>if\<close> statements, or falls off its end (\<^verbatim>\<open>undefined\<close>, here
  \<^const>\<open>None\<close>), which lets the request through. \<^verbatim>\<open>!!req.auth\<close> is true exactly when a
  session is attached.
\<close>

definition middleware :: "NextAuthRequest \<Rightarrow> Response option" where
  "middleware req =
     (let nextUrl = req_nextUrl req;
          isLoggedIn = (req_auth req \<noteq> None);
          isOnDashboard = startsWith (pathname nextUrl) ''/dashboard'';
          isOnLogin = startsWith (pathname nextUrl) ''/login''
      in if isOnDashboard \<and> \<not> isLoggedIn then
           Some (Response_redirect (new_URL ''/login'' nextUrl))
         else if isOnLogin \<and> isLoggedIn then
           Some (Response_redirect (new_URL ''/dashboard'' nextUrl))
         else None)"

subsection \<open>The \<^verbatim>\<open>authorized\<close> callback\<close>

text \<open>
  \<^verbatim>\<open>auth.ts\<close>, \<^verbatim>\<open>callbacks.authorized({ auth, request: { nextUrl } })\<close>. It returns
  \<^verbatim>\<open>true\<close>, \<^verbatim>\<open>false\<close> or a redirect response. \<^verbatim>\<open>!!auth?.user\<close> is true exactly when
  there is a session and the session has a user.
\<close>

datatype authorized_result = Authorized_bool bool | Authorized_response Response

definition authorized :: "Session option \<Rightarrow> URL \<Rightarrow> authorized_result" where
  "authorized auth nextUrl =
     (let isLoggedIn = (case auth of None \<Rightarrow> False | Some s \<Rightarrow> user s \<noteq> None);
          isOnDashboard = startsWith (pathname nextUrl) ''/dashboard''
      in if isOnDashboard then
           (if isLoggedIn then Authorized_bool True else Authorized_bool False)
         else if isLoggedIn then
           Authorized_response (Response_redirect (new_URL ''/dashboard'' nextUrl))
         else Authorized_bool True)"

subsection \<open>The exported guard\<close>

text \<open>
  \<^verbatim>\<open>export default auth((req) => { ... })\<close>: what \<^verbatim>\<open>middleware.ts\<close> exports is not the
  callback but \<^verbatim>\<open>auth\<close> applied to it, where \<^verbatim>\<open>auth\<close> comes from \<^verbatim>\<open>NextAuth(config)\<close> in
  \<^verbatim>\<open>auth.ts\<close>. For each request \<^verbatim>\<open>auth\<close> first calls \<^verbatim>\<open>config.callbacks.authorized\<close> with
  the request's session and URL. A response that \<^verbatim>\<open>authorized\<close> returns is the answer to
  the request; when it returns a boolean, the callback runs with the session in
  \<^verbatim>\<open>req.auth\<close> and its result is the answer. This is the function that decides every
  request that reaches the middleware.
\<close>

definition guard :: "NextAuthRequest \<Rightarrow> Response option" where
  "guard req =
     (case authorized (req_auth req) (req_nextUrl req) of
        Authorized_response response \<Rightarrow> Some response
      | Authorized_bool b \<Rightarrow> middleware req)"

section \<open>Navigation menu controller\<close>

text \<open>
  \<^verbatim>\<open>Header()\<close> holds one piece of React state,
  \<^verbatim>\<open>const [mobileMenuOpen, setMobileMenuOpen] = useState(false)\<close>, which the mobile
  \<^verbatim>\<open>Dialog\<close> shows (\<^verbatim>\<open>open={mobileMenuOpen}\<close>). The expandable sections inside the
  dialog are \<^verbatim>\<open>Disclosure\<close> components, which keep their own open/closed state; that
  state is the table \<open>sections\<close>, keyed by the section's name.
\<close>

record Header_state =
  mobileMenuOpen :: bool
  sections :: "string \<rightharpoonup> bool"

text \<open>The state setter that \<^verbatim>\<open>useState\<close> returns: it replaces \<^verbatim>\<open>mobileMenuOpen\<close>.\<close>

definition setMobileMenuOpen :: "bool \<Rightarrow> Header_state \<Rightarrow> Header_state" where
  "setMobileMenuOpen v st = st\<lparr>mobileMenuOpen := v\<rparr>"

text \<open>
  The mobile menu button: \<^verbatim>\<open>onClick \<rightarrow> setMobileMenuOpen(true)\<close>.
\<close>

definition openMenu :: "Header_state \<Rightarrow> Header_state" where
  "openMenu st = setMobileMenuOpen True st"

text \<open>
  The \<^verbatim>\<open>Disclosure\<close> sections are children of \<^verbatim>\<open><Dialog open={mobileMenuOpen}>\<close>, and the
  dialog renders its children only while it is open. When the flag goes to \<^verbatim>\<open>false\<close>
  the sections are unmounted and their state is discarded; at their next mount each of
  them starts collapsed again.
\<close>

definition unmount_sections :: "(string \<rightharpoonup> bool) \<Rightarrow> (string \<rightharpoonup> bool)" where
  "unmount_sections secs = (\<lambda>i. map_option (\<lambda>b. False) (secs i))"

text \<open>
  The close button: \<^verbatim>\<open>onClick={() => setMobileMenuOpen(false)}\<close>. The dialog's
  \<^verbatim>\<open>onClose={setMobileMenuOpen}\<close> is the same setter, which the dialog calls with
  \<^verbatim>\<open>false\<close> on a backdrop click or the escape key. With the flag at \<^verbatim>\<open>false\<close> the
  dialog disappears, and the sections inside it with it.
\<close>

definition closeMenu :: "Header_state \<Rightarrow> Header_state" where
  "closeMenu st =
     (let st' = setMobileMenuOpen False st
      in st'\<lparr>sections := unmount_sections (sections st')\<rparr>)"

text \<open>
  Modelled from the spec: the disclosure table at mount. The file \<^verbatim>\<open>app/ui/header.tsx\<close>
  and the \<^verbatim>\<open>Disclosure\<close> component it uses are not among the sources; the spec gives
  every expandable section one boolean, keyed by the section's identity, collapsed by
  default.
\<close>

definition initial_sections :: "string list \<Rightarrow> (string \<rightharpoonup> bool)" where
  "initial_sections ids = map_of (map (\<lambda>i. (i, False)) ids)"

text \<open>
  A mount of the header whose overlay has the sections \<open>ids\<close>: \<^verbatim>\<open>useState(false)\<close>
  for the overlay, every section collapsed.
\<close>

definition mount :: "string list \<Rightarrow> Header_state" where
  "mount ids = \<lparr>mobileMenuOpen = False, sections = initial_sections ids\<rparr>"

text \<open>
  Modelled from the spec: \<^verbatim>\<open>toggleSection(id)\<close>, which is the click on a section's
  \<^verbatim>\<open>DisclosureButton\<close> (in \<^verbatim>\<open>app/ui/header.tsx\<close> and the component library, neither
  among the sources). It flips the boolean of the section keyed by \<open>id\<close>; an id
  that names no section is inert.
\<close>

definition toggleSection :: "string \<Rightarrow> Header_state \<Rightarrow> Header_state" where
  "toggleSection i st =
     (case sections st i of
        None \<Rightarrow> st
      | Some b \<Rightarrow> st\<lparr>sections := (sections st)(i \<mapsto> \<not> b)\<rparr>)"

text \<open>The operations of the controller, and what each does to the state.\<close>

datatype operation = OpenMenu | CloseMenu | ToggleSection string

fun perform :: "operation \<Rightarrow> Header_state \<Rightarrow> Header_state" where
  "perform OpenMenu st = openMenu st"
| "perform CloseMenu st = closeMenu st"
| "perform (ToggleSection i) st = toggleSection i st"

section \<open>Properties of the route access guard\<close>

text \<open>
  The spec's \<^verbatim>\<open>decide(sessionPresent, path)\<close> is \<^const>\<open>guard\<close> at a request whose
  \<^verbatim>\<open>auth\<close> is present or absent and whose URL has that path name: \<^verbatim>\<open>Allow\<close> is the
  result \<^const>\<open>None\<close>, \<^verbatim>\<open>DenyRedirectToLogin\<close> the redirect to \<^verbatim>\<open>/login\<close> and
  \<^verbatim>\<open>RedirectAwayFromLogin\<close> the redirect to \<^verbatim>\<open>/dashboard\<close>. On the paths under
  \<^verbatim>\<open>/dashboard\<close> the guard is the middleware callback (\<open>guard_dashboard\<close> below), so
  what is proved of \<^const>\<open>middleware\<close> there is proved of the guard.
\<close>

lemma startsWith_take: "startsWith str search = (take (length search) str = search)"
  by (induction str search rule: startsWith.induct) auto

lemma startsWith_dashboard_not_login:
  "startsWith p ''/dashboard'' \<Longrightarrow> \<not> startsWith p ''/login''"
  by (cases p; simp; cases "tl p"; auto)

lemma pathname_new_URL: "pathname (new_URL url base) = url"
  by (simp add: new_URL_def)

lemma origin_new_URL: "origin (new_URL url base) = origin base"
  by (simp add: new_URL_def)

lemma authorized_dashboard:
  "startsWith (pathname nextUrl) ''/dashboard'' \<Longrightarrow>
   authorized auth nextUrl =
     Authorized_bool (case auth of None \<Rightarrow> False | Some s \<Rightarrow> user s \<noteq> None)"
  by (simp add: authorized_def Let_def)

lemma authorized_logged_in_elsewhere:
  "\<not> startsWith (pathname nextUrl) ''/dashboard'' \<Longrightarrow>
   authorized auth nextUrl =
     (if (case auth of None \<Rightarrow> False | Some s \<Rightarrow> user s \<noteq> None)
      then Authorized_response (Response_redirect (new_URL ''/dashboard'' nextUrl))
      else Authorized_bool True)"
  by (simp add: authorized_def Let_def)

lemma guard_dashboard:
  "startsWith (pathname (req_nextUrl req)) ''/dashboard'' \<Longrightarrow> guard req = middleware req"
  by (simp add: guard_def authorized_dashboard)

lemma guard_elsewhere:
  "\<not> startsWith (pathname (req_nextUrl req)) ''/dashboard'' \<Longrightarrow>
   guard req =
     (case req_auth req of
        None \<Rightarrow> None
      | Some s \<Rightarrow>
          if user s \<noteq> None \<or> startsWith (pathname (req_nextUrl req)) ''/login''
          then Some (Response_redirect (new_URL ''/dashboard'' (req_nextUrl req)))
          else None)"
  by (auto simp add: guard_def authorized_logged_in_elsewhere middleware_def Let_def
      split: option.splits)

lemma guard_no_redirect_chain:
  "guard req = Some (Response_redirect target) \<Longrightarrow>
   guard (req\<lparr>req_nextUrl := target\<rparr>) = None"
  by (auto simp add: guard_def authorized_def middleware_def Let_def new_URL_def
      split: if_splits option.splits)

text \<open>
  Claim C1, as stated, fails: with the session of a logged-in user, a path that does
  not begin with \<^verbatim>\<open>/dashboard\<close> and is not \<^verbatim>\<open>/login\<close> is not let through but redirected
  to \<^verbatim>\<open>/dashboard\<close>. The \<^verbatim>\<open>authorized\<close> callback does this at every such path
  (\<^verbatim>\<open>/design\<close>), and the middleware callback by itself at the paths that begin with
  \<^verbatim>\<open>/login\<close> (\<^verbatim>\<open>/login/reset\<close>).
\<close>

theorem guard_redirects_logged_in_elsewhere:
  "\<not> startsWith ''/design'' ''/dashboard'' \<and> ''/design'' \<noteq> ''/login'' \<and>
   guard
     \<lparr>req_auth = Some \<lparr>user = Some \<lparr>user_id = Some ''u1'', user_email = None\<rparr>\<rparr>,
      req_nextUrl = \<lparr>origin = ''https://example.com'', pathname = ''/design''\<rparr>\<rparr>
   = Some (Response_redirect \<lparr>origin = ''https://example.com'', pathname = ''/dashboard''\<rparr>) \<and>
   \<not> startsWith ''/login/reset'' ''/dashboard'' \<and> ''/login/reset'' \<noteq> ''/login'' \<and>
   middleware
     \<lparr>req_auth = Some \<lparr>user = Some \<lparr>user_id = Some ''u1'', user_email = None\<rparr>\<rparr>,
      req_nextUrl = \<lparr>origin = ''https://example.com'', pathname = ''/login/reset''\<rparr>\<rparr>
   = Some (Response_redirect \<lparr>origin = ''https://example.com'', pathname = ''/dashboard''\<rparr>)"
  by (simp add: guard_def authorized_def middleware_def Let_def new_URL_def)

text \<open>
  Claim C1, amended: for every path that does not begin with \<^verbatim>\<open>/dashboard\<close>, the guard
  lets the request through when no session is present; when the session of a logged-in
  user is present it does not, and redirects to \<^verbatim>\<open>/dashboard\<close> instead.
\<close>

theorem guard_outside_dashboard:
  assumes "\<not> startsWith (pathname (req_nextUrl req)) ''/dashboard''"
  shows "(req_auth req = None \<longrightarrow> guard req = None)
       \<and> (req_auth req = Some s \<and> user s = Some u \<longrightarrow>
            guard req = Some (Response_redirect (new_URL ''/dashboard'' (req_nextUrl req))))"
  using assms by (simp add: guard_elsewhere)

theorem guard_outside_dashboard_witness:
  "\<not> startsWith ''/design'' ''/dashboard'' \<and>
   guard
     \<lparr>req_auth = None,
      req_nextUrl = \<lparr>origin = ''https://example.com'', pathname = ''/design''\<rparr>\<rparr> = None \<and>
   guard
     \<lparr>req_auth = Some \<lparr>user = Some \<lparr>user_id = Some ''u1'', user_email = None\<rparr>\<rparr>,
      req_nextUrl = \<lparr>origin = ''https://example.com'', pathname = ''/design''\<rparr>\<rparr>
   = Some (Response_redirect \<lparr>origin = ''https://example.com'', pathname = ''/dashboard''\<rparr>)"
proof -
  let ?url = "\<lparr>origin = ''https://example.com'', pathname = ''/design''\<rparr>"
  let ?u = "\<lparr>user_id = Some ''u1'', user_email = None\<rparr>"
  have d: "\<not> startsWith ''/design'' ''/dashboard''"
    by simp
  have "guard \<lparr>req_auth = None, req_nextUrl = ?url\<rparr> = None"
    using guard_outside_dashboard [of "\<lparr>req_auth = None, req_nextUrl = ?url\<rparr>"]
    by simp
  moreover have "guard \<lparr>req_auth = Some \<lparr>user = Some ?u\<rparr>, req_nextUrl = ?url\<rparr>
      = Some (Response_redirect \<lparr>origin = ''https://example.com'', pathname = ''/dashboard''\<rparr>)"
    using guard_outside_dashboard
      [of "\<lparr>req_auth = Some \<lparr>user = Some ?u\<rparr>, req_nextUrl = ?url\<rparr>" "\<lparr>user = Some ?u\<rparr>" ?u]
    by (simp add: new_URL_def)
  ultimately show ?thesis using d by simp
qed



text \<open>
  Claim C3, as stated, fails in its "only when the path equals the login path": with
  the session of a logged-in user the guard redirects to \<^verbatim>\<open>/dashboard\<close> from the home
  page too, and the middleware callback by itself from a path that merely begins with
  \<^verbatim>\<open>/login\<close>.
\<close>

theorem guard_redirect_away_beyond_login:
  "''/'' \<noteq> ''/login'' \<and>
   guard
     \<lparr>req_auth = Some \<lparr>user = Some \<lparr>user_id = Some ''u1'', user_email = None\<rparr>\<rparr>,
      req_nextUrl = \<lparr>origin = ''https://example.com'', pathname = ''/''\<rparr>\<rparr>
   = Some (Response_redirect \<lparr>origin = ''https://example.com'', pathname = ''/dashboard''\<rparr>) \<and>
   ''/login-help'' \<noteq> ''/login'' \<and>
   middleware
     \<lparr>req_auth = Some \<lparr>user = Some \<lparr>user_id = Some ''u1'', user_email = None\<rparr>\<rparr>,
      req_nextUrl = \<lparr>origin = ''https://example.com'', pathname = ''/login-help''\<rparr>\<rparr>
   = Some (Response_redirect \<lparr>origin = ''https://example.com'', pathname = ''/dashboard''\<rparr>)"
  by (simp add: guard_def authorized_def middleware_def Let_def new_URL_def)

text \<open>
  Claim C3, amended: the guard redirects to \<^verbatim>\<open>/dashboard\<close> exactly when the path does not
  begin with \<^verbatim>\<open>/dashboard\<close> and a session is present that has a user (or, for a session
  with no user, the path begins with \<^verbatim>\<open>/login\<close>): from the login path, but not only
  from it. On the login path with no session the guard lets the request through.
\<close>

theorem guard_redirect_away_iff:
  "(guard req = Some (Response_redirect (new_URL ''/dashboard'' (req_nextUrl req))))
     = (\<not> startsWith (pathname (req_nextUrl req)) ''/dashboard'' \<and>
        (case req_auth req of
           None \<Rightarrow> False
         | Some s \<Rightarrow> user s \<noteq> None \<or> startsWith (pathname (req_nextUrl req)) ''/login''))
   \<and> guard \<lparr>req_auth = None, req_nextUrl = \<lparr>origin = og, pathname = ''/login''\<rparr>\<rparr> = None"
proof (intro conjI)
  show "(guard req = Some (Response_redirect (new_URL ''/dashboard'' (req_nextUrl req))))
     = (\<not> startsWith (pathname (req_nextUrl req)) ''/dashboard'' \<and>
        (case req_auth req of
           None \<Rightarrow> False
         | Some s \<Rightarrow> user s \<noteq> None \<or> startsWith (pathname (req_nextUrl req)) ''/login''))"
  proof (cases "startsWith (pathname (req_nextUrl req)) ''/dashboard''")
    case True
    then show ?thesis
      using startsWith_dashboard_not_login [OF True]
      by (simp add: guard_dashboard middleware_def Let_def new_URL_def)
  next
    case False
    then show ?thesis
      by (simp add: guard_elsewhere split: option.splits)
  qed
  show "guard \<lparr>req_auth = None, req_nextUrl = \<lparr>origin = og, pathname = ''/login''\<rparr>\<rparr> = None"
    by (simp add: guard_elsewhere)
qed

theorem guard_redirect_away_iff_witness:
  "guard
     \<lparr>req_auth = Some \<lparr>user = Some \<lparr>user_id = Some ''u1'', user_email = None\<rparr>\<rparr>,
      req_nextUrl = \<lparr>origin = ''https://example.com'', pathname = ''/login''\<rparr>\<rparr>
   = Some (Response_redirect \<lparr>origin = ''https://example.com'', pathname = ''/dashboard''\<rparr>) \<and>
   guard
     \<lparr>req_auth = Some \<lparr>user = Some \<lparr>user_id = Some ''u1'', user_email = None\<rparr>\<rparr>,
      req_nextUrl = \<lparr>origin = ''https://example.com'', pathname = ''/design/beginning''\<rparr>\<rparr>
   = Some (Response_redirect \<lparr>origin = ''https://example.com'', pathname = ''/dashboard''\<rparr>) \<and>
   guard
     \<lparr>req_auth = Some \<lparr>user = Some \<lparr>user_id = Some ''u1'', user_email = None\<rparr>\<rparr>,
      req_nextUrl = \<lparr>origin = ''https://example.com'', pathname = ''/dashboard''\<rparr>\<rparr>
   \<noteq> Some (Response_redirect \<lparr>origin = ''https://example.com'', pathname = ''/dashboard''\<rparr>) \<and>
   guard
     \<lparr>req_auth = None,
      req_nextUrl = \<lparr>origin = ''https://example.com'', pathname = ''/login''\<rparr>\<rparr> = None"
proof -
  let ?s = "Some \<lparr>user = Some \<lparr>user_id = Some ''u1'', user_email = None\<rparr>\<rparr>"
  show ?thesis
    using
      guard_redirect_away_iff [of "\<lparr>req_auth = ?s,
        req_nextUrl = \<lparr>origin = ''https://example.com'', pathname = ''/login''\<rparr>\<rparr>"
        "''https://example.com''"]
      guard_redirect_away_iff [of "\<lparr>req_auth = ?s,
        req_nextUrl = \<lparr>origin = ''https://example.com'', pathname = ''/design/beginning''\<rparr>\<rparr>"
        "''https://example.com''"]
      guard_redirect_away_iff [of "\<lparr>req_auth = ?s,
        req_nextUrl = \<lparr>origin = ''https://example.com'', pathname = ''/dashboard''\<rparr>\<rparr>"
        "''https://example.com''"]
    by (simp add: new_URL_def)
qed





text \<open>
  Claim C6: for every path that does not begin with \<^verbatim>\<open>/dashboard\<close>, the \<^verbatim>\<open>authorized\<close>
  callback answers a logged-in request (a session with a user) with a redirect to
  \<^verbatim>\<open>/dashboard\<close>: the home page and every other unprotected page included.
\<close>

theorem authorized_redirects_logged_in:
  assumes "\<not> startsWith (pathname nextUrl) ''/dashboard''"
      and "auth = Some s" and "user s = Some u"
  shows "authorized auth nextUrl =
           Authorized_response (Response_redirect (new_URL ''/dashboard'' nextUrl))"
  using assms by (simp add: authorized_def Let_def)

theorem authorized_redirects_logged_in_witness:
  "\<not> startsWith ''/'' ''/dashboard'' \<and>
   authorized (Some \<lparr>user = Some \<lparr>user_id = Some ''u1'', user_email = None\<rparr>\<rparr>)
     \<lparr>origin = ''https://example.com'', pathname = ''/''\<rparr>
   = Authorized_response
       (Response_redirect \<lparr>origin = ''https://example.com'', pathname = ''/dashboard''\<rparr>)"
proof -
  have p: "\<not> startsWith (pathname \<lparr>origin = ''https://example.com'', pathname = ''/''\<rparr>)
             ''/dashboard''"
    by simp
  have "authorized (Some \<lparr>user = Some \<lparr>user_id = Some ''u1'', user_email = None\<rparr>\<rparr>)
     \<lparr>origin = ''https://example.com'', pathname = ''/''\<rparr>
   = Authorized_response
       (Response_redirect
         (new_URL ''/dashboard'' \<lparr>origin = ''https://example.com'', pathname = ''/''\<rparr>))"
    by (rule authorized_redirects_logged_in [OF p refl]) simp
  then show ?thesis by (simp add: new_URL_def)
qed

section \<open>Properties of the navigation menu controller\<close>

lemma initial_sections_apply:
  "initial_sections ids i = (if i \<in> set ids then Some False else None)"
  by (induction ids) (auto simp add: initial_sections_def)

lemma mobileMenuOpen_setMobileMenuOpen: "mobileMenuOpen (setMobileMenuOpen v st) = v"
  by (simp add: setMobileMenuOpen_def)

lemma sections_setMobileMenuOpen: "sections (setMobileMenuOpen v st) = sections st"
  by (simp add: setMobileMenuOpen_def)

lemma mobileMenuOpen_closeMenu: "mobileMenuOpen (closeMenu st) = False"
  by (simp add: closeMenu_def Let_def setMobileMenuOpen_def)

lemma sections_closeMenu: "sections (closeMenu st) = unmount_sections (sections st)"
  by (simp add: closeMenu_def Let_def setMobileMenuOpen_def)

lemma mobileMenuOpen_toggleSection:
  "mobileMenuOpen (toggleSection i st) = mobileMenuOpen st"
  by (simp add: toggleSection_def split: option.splits)

text \<open>
  Claim C7: the overlay is closed at every mount; from any state \<^verbatim>\<open>openMenu\<close> opens it
  and a following \<^verbatim>\<open>closeMenu\<close> closes it; and an operation that changes the flag is
  one of these two.
\<close>

theorem Header_menu_visibility:
  "mobileMenuOpen (mount ids) = False
   \<and> mobileMenuOpen (openMenu st) = True
   \<and> mobileMenuOpen (closeMenu (openMenu st)) = False
   \<and> (mobileMenuOpen (perform opn st) \<noteq> mobileMenuOpen st \<longrightarrow>
        opn = OpenMenu \<or> opn = CloseMenu)"
  by (cases opn)
    (simp_all add: mount_def openMenu_def mobileMenuOpen_closeMenu
      mobileMenuOpen_setMobileMenuOpen mobileMenuOpen_toggleSection)

theorem Header_menu_visibility_witness:
  "mobileMenuOpen (perform OpenMenu (mount [''Product'']))
     \<noteq> mobileMenuOpen (mount [''Product'']) \<and>
   mobileMenuOpen (openMenu (mount [''Product''])) = True \<and>
   mobileMenuOpen (closeMenu (openMenu (mount [''Product'']))) = False"
proof -
  have h: "mobileMenuOpen (perform OpenMenu (mount [''Product'']))
     \<noteq> mobileMenuOpen (mount [''Product''])"
    by (simp add: mount_def openMenu_def setMobileMenuOpen_def)
  from Header_menu_visibility [of "[''Product'']" "mount [''Product'']" OpenMenu]
  have "mobileMenuOpen (openMenu (mount [''Product''])) = True \<and>
    mobileMenuOpen (closeMenu (openMenu (mount [''Product'']))) = False"
    by blast
  with h show ?thesis by blast
qed

text \<open>
  Claim C8: for a known section, \<^verbatim>\<open>toggleSection\<close> flips its boolean, and calling it
  twice gives back the state it started from.
\<close>

theorem toggleSection_involution:
  assumes "sections st i = Some b"
  shows "sections (toggleSection i st) i = Some (\<not> b)
       \<and> toggleSection i (toggleSection i st) = st"
  using assms by (simp add: toggleSection_def fun_upd_idem)

theorem toggleSection_involution_witness:
  "sections (mount [''Product'']) ''Product'' = Some False \<and>
   sections (toggleSection ''Product'' (mount [''Product''])) ''Product'' = Some True \<and>
   toggleSection ''Product'' (toggleSection ''Product'' (mount [''Product'']))
     = mount [''Product'']"
proof -
  have h: "sections (mount [''Product'']) ''Product'' = Some False"
    by (simp add: mount_def initial_sections_apply)
  from toggleSection_involution [OF h] h show ?thesis by simp
qed

text \<open>
  Claim C9: \<^verbatim>\<open>toggleSection\<close> at an id that names no section returns the state it was
  given, overlay flag and every section's flag alike; it has no error outcome.
\<close>

theorem toggleSection_unknown_noop:
  assumes "sections st i = None"
  shows "toggleSection i st = st"
  using assms by (simp add: toggleSection_def)

theorem toggleSection_unknown_noop_witness:
  "sections (mount [''Product'']) ''Pricing'' = None \<and>
   toggleSection ''Pricing'' (mount [''Product'']) = mount [''Product'']"
proof -
  have h: "sections (mount [''Product'']) ''Pricing'' = None"
    by (simp add: mount_def initial_sections_apply)
  from toggleSection_unknown_noop [OF h] h show ?thesis by simp
qed

text \<open>
  Claim C10, as stated, fails for \<^verbatim>\<open>closeMenu\<close>: a section that was expanded while the
  overlay was open is collapsed again once the overlay has been closed, within the
  same mount of the header.
\<close>

theorem closeMenu_collapses_sections:
  "sections (toggleSection ''Product'' (openMenu (mount [''Product'']))) ''Product''
     = Some True \<and>
   sections (closeMenu (toggleSection ''Product'' (openMenu (mount [''Product''])))) ''Product''
     = Some False"
  by (simp add: sections_closeMenu unmount_sections_def toggleSection_def openMenu_def
      setMobileMenuOpen_def mount_def initial_sections_apply)

text \<open>
  Claim C10, amended: \<^verbatim>\<open>openMenu\<close> leaves every section's flag as it is and
  \<^verbatim>\<open>toggleSection\<close> leaves the overlay flag, and the flag of every other section, as it
  is; \<^verbatim>\<open>closeMenu\<close> does not keep the sections' flags but returns every section to
  collapsed, as a mount does, which also starts with the overlay closed.
\<close>

theorem menu_sections_frame:
  "sections (openMenu st) = sections st
   \<and> mobileMenuOpen (toggleSection i st) = mobileMenuOpen st
   \<and> (j \<noteq> i \<longrightarrow> sections (toggleSection i st) j = sections st j)
   \<and> sections (closeMenu st) j = (case sections st j of None \<Rightarrow> None | Some b \<Rightarrow> Some False)
   \<and> mobileMenuOpen (mount ids) = False
   \<and> sections (mount ids) j = (if j \<in> set ids then Some False else None)"
  by (simp add: openMenu_def sections_setMobileMenuOpen mobileMenuOpen_toggleSection
      sections_closeMenu unmount_sections_def mount_def initial_sections_apply
      toggleSection_def split: option.splits)

theorem menu_sections_frame_witness:
  "''Company'' \<noteq> ''Product'' \<and>
   sections (toggleSection ''Product'' (openMenu (mount [''Product'', ''Company''])))
      ''Company'' = Some False \<and>
   sections (toggleSection ''Product'' (openMenu (mount [''Product'', ''Company''])))
      ''Product'' = Some True \<and>
   sections
      (closeMenu (toggleSection ''Product'' (openMenu (mount [''Product'', ''Company'']))))
      ''Product'' = Some False \<and>
   mobileMenuOpen (toggleSection ''Product'' (openMenu (mount [''Product'', ''Company''])))
     = True"
proof -
  let ?st0 = "openMenu (mount [''Product'', ''Company''])"
  let ?st1 = "toggleSection ''Product'' ?st0"
  have ne: "''Company'' \<noteq> ''Product''"
    by simp
  have s0: "sections ?st0 = sections (mount [''Product'', ''Company''])"
    using menu_sections_frame [of "mount [''Product'', ''Company'']"] by blast
  have c0: "sections (mount [''Product'', ''Company'']) ''Company'' = Some False"
    using menu_sections_frame [of _ _ "''Company''" "[''Product'', ''Company'']"] by simp
  have p1: "sections ?st1 ''Product'' = Some True"
    by (simp add: toggleSection_def openMenu_def setMobileMenuOpen_def mount_def
        initial_sections_apply)
  have c1: "sections ?st1 ''Company'' = Some False"
    using menu_sections_frame [of ?st0 "''Product''" "''Company''"] ne s0 c0 by simp
  have p2: "sections (closeMenu ?st1) ''Product'' = Some False"
    using menu_sections_frame [of ?st1 _ "''Product''"] p1 by simp
  have o1: "mobileMenuOpen ?st1 = True"
    using menu_sections_frame [of ?st0 "''Product''"]
    by (simp add: openMenu_def setMobileMenuOpen_def)
  from ne c1 p1 p2 o1 show ?thesis by blast
qed

end
